theory Spec2Isabelle
  imports Main "HOL-Library.Sublist" "HOL-Library.List_Lexorder"
begin

section \<open>Python strings\<close>

text \<open>
  A Python \<open>str\<close> is a sequence of Unicode code points; it is modelled as the list of
  these code points. \<open>str\<close> turns an ASCII literal into that list, so that
  \<open>str ''e|''\<close> is the Python literal \<open>"e|"\<close>. The en dash is code point 8211, the em
  dash 8212, carriage return 13, line feed 10.
\<close>

type_synonym pystr = "nat list"

definition str :: "string \<Rightarrow> pystr" where
  "str s = map of_char s"

text \<open>
  \<open>str.isspace\<close> for one character; the set is also what \<open>\s\<close> matches in a
  pattern over \<open>str\<close> and what \<open>str.strip()\<close> removes.
\<close>

definition is_space :: "nat \<Rightarrow> bool" where
  "is_space c =
     (c \<in> set [9, 10, 11, 12, 13, 28, 29, 30, 31, 32, 133, 160, 5760,
                8232, 8233, 8239, 8287, 12288]
      \<or> (8192 \<le> c \<and> c \<le> 8202))"

text \<open>
  \<open>\d\<close>, restricted to the ASCII digits. In a \<open>str\<close> pattern \<open>\d\<close> also accepts
  the decimal digits of other scripts; those code points are outside this model.
\<close>

definition is_digit :: "nat \<Rightarrow> bool" where
  "is_digit c = (48 \<le> c \<and> c \<le> 57)"

definition lstrip :: "pystr \<Rightarrow> pystr" where
  "lstrip s = dropWhile is_space s"

definition rstrip :: "pystr \<Rightarrow> pystr" where
  "rstrip s = rev (dropWhile is_space (rev s))"

definition strip :: "pystr \<Rightarrow> pystr" where
  "strip s = rstrip (lstrip s)"

text \<open>\<open>s.strip("\n")\<close>: only line feeds are removed at both ends.\<close>

definition strip_newlines :: "pystr \<Rightarrow> pystr" where
  "strip_newlines s =
     rev (dropWhile (\<lambda>c. c = 10) (rev (dropWhile (\<lambda>c. c = 10) s)))"

text \<open>
  \<open>s.replace(old, new)\<close> for a non-empty \<open>old\<close>: the occurrences are replaced from
  left to right and do not overlap. (The program only calls it with non-empty
  constants; for an empty \<open>old\<close> this function returns \<open>s\<close>.)
\<close>

fun replace :: "'a list \<Rightarrow> 'a list \<Rightarrow> 'a list \<Rightarrow> 'a list" where
  "replace old new [] = []"
| "replace old new (c # s) =
     (if old \<noteq> [] \<and> prefix old (c # s)
      then new @ replace old new (drop (length old) (c # s))
      else c # replace old new s)"

text \<open>\<open>s.split(sep)\<close> for a one-character separator: never the empty list.\<close>

fun split_on :: "'a \<Rightarrow> 'a list \<Rightarrow> 'a list list" where
  "split_on sep [] = [[]]"
| "split_on sep (c # s) =
     (if c = sep then [] # split_on sep s
      else (case split_on sep s of
              [] \<Rightarrow> [[c]]
            | l # ls \<Rightarrow> (c # l) # ls))"

text \<open>\<open>sep.join(xs)\<close>.\<close>

fun join :: "'a list \<Rightarrow> 'a list list \<Rightarrow> 'a list" where
  "join sep [] = []"
| "join sep [x] = x"
| "join sep (x # y # ys) = x @ sep @ join sep (y # ys)"

section \<open>The patterns\<close>

text \<open>
  Each compiled pattern of the module is a predicate (or a search function) written for
  that pattern and for the way the program calls it (\<open>match\<close> anchors at the start,
  \<open>fullmatch\<close> at both ends, \<open>search\<close> returns the leftmost match).
\<close>

text \<open>
  \<open>URL_RE.fullmatch(s)\<close> with \<open>URL_RE = (https?://[^\s]+)\<close>: the whole of \<open>s\<close> is
  \<open>http://\<close> or \<open>https://\<close> and then one or more characters that are not whitespace.
\<close>

definition url_tail :: "pystr \<Rightarrow> bool" where
  "url_tail r = (r \<noteq> [] \<and> list_all (\<lambda>c. \<not> is_space c) r)"

definition URL_RE_fullmatch :: "pystr \<Rightarrow> bool" where
  "URL_RE_fullmatch s =
     ((prefix (str ''http://'') s \<and> url_tail (drop 7 s))
      \<or> (prefix (str ''https://'') s \<and> url_tail (drop 8 s)))"

text \<open>
  \<open>TAB_LINE_RE.match(l)\<close> with \<open>TAB_LINE_RE = ^\s*[eEGBDA]\s*\|\<close>: whitespace, one of
  the six letters, whitespace, a vertical bar (code point 124). The letters and the bar
  are not whitespace, so each \<open>\s*\<close> takes the whole run of whitespace.
\<close>

definition TAB_LINE_RE_match :: "pystr \<Rightarrow> bool" where
  "TAB_LINE_RE_match l =
     (case dropWhile is_space l of
        [] \<Rightarrow> False
      | c # r \<Rightarrow>
          c \<in> set (str ''eEGBDA'') \<and>
          (case dropWhile is_space r of
             [] \<Rightarrow> False
           | p # _ \<Rightarrow> p = 124))"

text \<open>
  \<open>BLANK_LINE_RE.match(l)\<close> with \<open>BLANK_LINE_RE = ^\s*$\<close>: every character of the
  line is whitespace (\<open>$\<close> also matches before a final line feed, which \<open>\s*\<close> covers).
\<close>

definition BLANK_LINE_RE_match :: "pystr \<Rightarrow> bool" where
  "BLANK_LINE_RE_match l = list_all is_space l"

text \<open>\<open>STARTS_WITH_NUMBER_RE.match(l)\<close> with \<open>STARTS_WITH_NUMBER_RE = ^\s*\d\<close>.\<close>

definition STARTS_WITH_NUMBER_RE_match :: "pystr \<Rightarrow> bool" where
  "STARTS_WITH_NUMBER_RE_match l =
     (case dropWhile is_space l of
        [] \<Rightarrow> False
      | c # _ \<Rightarrow> is_digit c)"

text \<open>
  \<open>BRACKET_CONTENT_RE.search(s)\<close> with \<open>BRACKET_CONTENT_RE = \((.*?)\)\<close>: the leftmost
  opening parenthesis (40) that is followed, with no line feed in between (the dot does
  not match one), by a closing parenthesis (41); the group is the text up to the first
  such closing parenthesis. The result is \<open>(match.start(), match.end(), match.group(1))\<close>;
  the first argument counts the characters already passed.
\<close>

fun bracket_search_from :: "nat \<Rightarrow> pystr \<Rightarrow> (nat \<times> nat \<times> pystr) option" where
  "bracket_search_from k [] = None"
| "bracket_search_from k (c # s) =
     (if c = 40 then
        (let g = takeWhile (\<lambda>x. x \<noteq> 41 \<and> x \<noteq> 10) s in
         (case drop (length g) s of
            [] \<Rightarrow> bracket_search_from (Suc k) s
          | d # _ \<Rightarrow>
              if d = 41 then Some (k, k + length g + 2, g)
              else bracket_search_from (Suc k) s))
      else bracket_search_from (Suc k) s)"

definition BRACKET_CONTENT_RE_search :: "pystr \<Rightarrow> (nat \<times> nat \<times> pystr) option" where
  "BRACKET_CONTENT_RE_search s = bracket_search_from 0 s"

text \<open>\<open>re.sub(r'\s+', ' ', s)\<close>: every maximal run of whitespace becomes one space.\<close>

function collapse_spaces :: "pystr \<Rightarrow> pystr" where
  "collapse_spaces [] = []"
| "collapse_spaces (c # s) =
     (if is_space c then 32 # collapse_spaces (dropWhile is_space s)
      else c # collapse_spaces s)"
  by pat_completeness auto

termination collapse_spaces
proof (relation "measure length")
  show "wf (measure length)" by simp
next
  fix c :: nat and s :: pystr
  have "length (dropWhile is_space s) \<le> length s" by (rule length_dropWhile_le)
  then show "(dropWhile is_space s, c # s) \<in> measure length" by simp
next
  fix c :: nat and s :: pystr
  show "(s, c # s) \<in> measure length" by simp
qed

text \<open>
  \<open>re.split(r'[,\s]+', s)\<close>: the pieces between the maximal runs of commas (44) and
  whitespace, the empty pieces at both ends included.
\<close>

definition is_sep :: "nat \<Rightarrow> bool" where
  "is_sep c = (c = 44 \<or> is_space c)"

function split_seps :: "pystr \<Rightarrow> pystr list" where
  "split_seps [] = [[]]"
| "split_seps (c # s) =
     (if is_sep c then [] # split_seps (dropWhile is_sep s)
      else (case split_seps s of
              [] \<Rightarrow> [[c]]
            | t # ts \<Rightarrow> (c # t) # ts))"
  by pat_completeness auto

termination split_seps
proof (relation "measure length")
  show "wf (measure length)" by simp
next
  fix c :: nat and s :: pystr
  have "length (dropWhile is_sep s) \<le> length s" by (rule length_dropWhile_le)
  then show "(dropWhile is_sep s, c # s) \<in> measure length" by simp
next
  fix c :: nat and s :: pystr
  show "(s, c # s) \<in> measure length" by simp
qed

text \<open>
  \<open>CHORD_SUFFIX_RE.match(t)\<close>. The pattern is built from the two note lists:
  \<open>^(?:C|C#|D|...|Bb|B)(?:m|maj|min|dim|aug|sus|\d+)?(?:/[A-G][b#]?)?$\<close>. The matcher
  backtracks over every alternative, so the token matches when some note of the list,
  some choice for the optional quality and some choice for the optional bass use it up
  to its end; \<open>$\<close> is the end of the token or the position before a final line feed.
\<close>

definition NOTES_SHARP :: "pystr list" where
  "NOTES_SHARP = map str [''C'', ''C#'', ''D'', ''D#'', ''E'', ''F'', ''F#'', ''G'', ''G#'',
                          ''A'', ''A#'', ''B'']"

definition NOTES_FLAT :: "pystr list" where
  "NOTES_FLAT = map str [''C'', ''Db'', ''D'', ''Eb'', ''E'', ''F'', ''Gb'', ''G'', ''Ab'',
                         ''A'', ''Bb'', ''B'']"

definition ALL_NOTES :: "pystr list" where
  "ALL_NOTES = NOTES_SHARP @ NOTES_FLAT"

definition QUALITIES :: "pystr list" where
  "QUALITIES = map str [''m'', ''maj'', ''min'', ''dim'', ''aug'', ''sus'']"

definition at_end :: "pystr \<Rightarrow> bool" where
  "at_end s = (s = [] \<or> s = [10])"

text \<open>The rest after \<open>(?:/[A-G][b#]?)?$\<close>: 47 is the slash, 65 to 71 are A to G.\<close>

definition bass_then_end :: "pystr \<Rightarrow> bool" where
  "bass_then_end s =
     (at_end s \<or>
      (case s of
         sl # n # r \<Rightarrow>
           sl = 47 \<and> 65 \<le> n \<and> n \<le> 71 \<and>
           (at_end r \<or>
            (case r of
               a # r' \<Rightarrow> (a = 98 \<or> a = 35) \<and> at_end r'
             | [] \<Rightarrow> False))
       | _ \<Rightarrow> False))"

text \<open>The rest after \<open>(?:m|maj|min|dim|aug|sus|\d+)?\<close> and what follows it.\<close>

definition quality_then_rest :: "pystr \<Rightarrow> bool" where
  "quality_then_rest s =
     (bass_then_end s
      \<or> list_ex (\<lambda>q. prefix q s \<and> bass_then_end (drop (length q) s)) QUALITIES
      \<or> list_ex (\<lambda>k. list_all is_digit (take k s) \<and> bass_then_end (drop k s))
           [1 ..< Suc (length s)])"

definition CHORD_SUFFIX_RE_match :: "pystr \<Rightarrow> bool" where
  "CHORD_SUFFIX_RE_match t =
     list_ex (\<lambda>n. prefix n t \<and> quality_then_rest (drop (length n) t)) ALL_NOTES"

section \<open>Text normalization\<close>

text \<open>
  Line 80 of \<open>parse_note_json\<close> replaces the en dash and then the em dash by a hyphen
  (45); line 86 replaces \<open>\r\n\<close> and then every remaining \<open>\r\<close> by \<open>\n\<close> before the
  text is split into lines.
\<close>

definition normalize_dashes :: "pystr \<Rightarrow> pystr" where
  "normalize_dashes t = replace [8212] [45] (replace [8211] [45] t)"

definition normalize_newlines :: "pystr \<Rightarrow> pystr" where
  "normalize_newlines t = replace [13] [10] (replace [13, 10] [10] t)"

definition normalize_text :: "pystr \<Rightarrow> pystr" where
  "normalize_text t = normalize_newlines (normalize_dashes t)"

section \<open>The chords of the title\<close>

text \<open>
  Line 65: \<open>[t.strip() for t in re.split(r'[,\s]+', bracket_content) if t.strip()]\<close>.
\<close>

definition bracket_tokens :: "pystr \<Rightarrow> pystr list" where
  "bracket_tokens bracket_content =
     map strip (filter (\<lambda>t. strip t \<noteq> []) (split_seps bracket_content))"

text \<open>
  \<open>extract_chords_from_title\<close> (lines 59 to 71): the new title and the annotation,
  \<open>None\<close> when there is no bracket group or no valid chord in it.
\<close>

definition extract_chords_from_title :: "pystr \<Rightarrow> pystr \<times> pystr option" where
  "extract_chords_from_title title0 =
     (let t = strip (collapse_spaces title0) in
      (case BRACKET_CONTENT_RE_search t of
         None \<Rightarrow> (t, None)
       | Some (m_start, m_end, bracket_content) \<Rightarrow>
           (let valid_chords = filter CHORD_SUFFIX_RE_match (bracket_tokens bracket_content) in
            if valid_chords \<noteq> [] then
              (strip (collapse_spaces (strip (take m_start t) @ strip (drop m_end t))),
               Some (str ''Chords used : '' @ join (str '', '') valid_chords))
            else (t, None))))"

section \<open>The body of a note\<close>

text \<open>
  Lines 89 to 96: the loop over the lines that moves every line whose stripped text is
  one URL to \<open>references_lines\<close> (stripped) and every other line to
  \<open>content_lines\<close> (as it is). The result is \<open>(references_lines, content_lines)\<close>.
\<close>

fun split_references :: "pystr list \<Rightarrow> pystr list \<times> pystr list" where
  "split_references [] = ([], [])"
| "split_references (line # rest) =
     (let (references_lines, content_lines) = split_references rest;
          stripped = strip line
      in if URL_RE_fullmatch stripped
         then (stripped # references_lines, content_lines)
         else (references_lines, line # content_lines))"

text \<open>Lines 100 to 104: the lines before the first blank line.\<close>

fun first_paragraph :: "pystr list \<Rightarrow> pystr list" where
  "first_paragraph [] = []"
| "first_paragraph (line # rest) =
     (if BLANK_LINE_RE_match line then [] else line # first_paragraph rest)"

text \<open>Lines 106 to 110.\<close>

definition use_metadata :: "pystr list \<Rightarrow> bool" where
  "use_metadata content_lines =
     (case first_paragraph content_lines of
        [] \<Rightarrow> True
      | l0 # ls \<Rightarrow>
          (let tab_lines_count = length (filter TAB_LINE_RE_match (l0 # ls)) in
           if STARTS_WITH_NUMBER_RE_match l0 \<or> tab_lines_count > 0 then False else True))"

text \<open>
  Lines 116 to 118: the \<open>while\<close> loop from \<open>i = 0\<close>; the result is
  \<open>(metadata_lines, i)\<close>.
\<close>

fun metadata_scan :: "pystr list \<Rightarrow> pystr list \<times> nat" where
  "metadata_scan [] = ([], 0)"
| "metadata_scan (line # rest) =
     (if BLANK_LINE_RE_match line then ([], 0)
      else (let (metadata_lines, i) = metadata_scan rest in (line # metadata_lines, Suc i)))"

text \<open>
  Lines 113 to 119: \<open>(metadata_lines, content_lines)\<close> after the header is taken;
  \<open>content_lines[i + 1:]\<close> is \<open>drop (i + 1)\<close>, empty when \<open>i + 1\<close> is past the end.
\<close>

definition extract_metadata :: "pystr list \<Rightarrow> pystr list \<times> pystr list" where
  "extract_metadata content_lines =
     (if use_metadata content_lines then
        (let (metadata_lines, i) = metadata_scan content_lines
         in (metadata_lines, drop (i + 1) content_lines))
      else ([], content_lines))"

text \<open>
  Lines 122 to 133: every maximal run of tablature lines becomes one element,
  \<open>"```" + "\n".join(block) + "\n```"\<close>; the other lines are kept.
\<close>

function group_tabs :: "pystr list \<Rightarrow> pystr list" where
  "group_tabs [] = []"
| "group_tabs (line # rest) =
     (if TAB_LINE_RE_match line then
        (let block = line # takeWhile TAB_LINE_RE_match rest in
         (str ''```'' @ join [10] block @ str ''\<newline>```'')
           # group_tabs (dropWhile TAB_LINE_RE_match rest))
      else line # group_tabs rest)"
  by pat_completeness auto

termination group_tabs
proof (relation "measure length")
  show "wf (measure length)" by simp
next
  fix line :: pystr and rest :: "pystr list"
  have "length (dropWhile TAB_LINE_RE_match rest) \<le> length rest"
    by (rule length_dropWhile_le)
  then show "(dropWhile TAB_LINE_RE_match rest, line # rest) \<in> measure length" by simp
next
  fix line :: pystr and rest :: "pystr list"
  show "(rest, line # rest) \<in> measure length" by simp
qed

text \<open>Lines 136 to 141; \<open>if metadata_chords\<close> is false for \<open>None\<close> and for \<open>""\<close>.\<close>

definition merge_metadata :: "pystr list \<Rightarrow> pystr option \<Rightarrow> pystr" where
  "merge_metadata metadata_lines metadata_chords =
     (let metadata_text = strip (join [10] metadata_lines) in
      (case metadata_chords of
         None \<Rightarrow> metadata_text
       | Some chords \<Rightarrow>
           if chords = [] then metadata_text
           else if metadata_text \<noteq> [] then metadata_text @ [10] @ chords
           else chords))"

text \<open>Lines 144 and 145.\<close>

definition prepare_content :: "pystr list \<Rightarrow> pystr" where
  "prepare_content grouped_content =
     strip_newlines (join [10] (split_on 10 (strip (join [10] grouped_content))))"

text \<open>Line 86 and the loop after it: the lines of the text and their two streams.\<close>

definition body_lines :: "pystr \<Rightarrow> pystr list" where
  "body_lines raw_text = split_on 10 (normalize_newlines raw_text)"

definition body_content_lines :: "pystr \<Rightarrow> pystr list" where
  "body_content_lines raw_text = snd (split_references (body_lines raw_text))"

text \<open>
  Lines 86 to 145 as one function of \<open>raw_text\<close> and \<open>metadata_chords\<close>: the fields
  \<open>(metadata, content, references)\<close> of the result.
\<close>

definition parse_body :: "pystr \<Rightarrow> pystr option \<Rightarrow> pystr \<times> pystr \<times> pystr" where
  "parse_body raw_text metadata_chords =
     (let lines = body_lines raw_text;
          (references_lines, content_lines) = split_references lines;
          references = join [10] references_lines;
          (metadata_lines, content_lines') = extract_metadata content_lines;
          grouped_content = group_tabs content_lines';
          metadata_text = merge_metadata metadata_lines metadata_chords;
          content = prepare_content grouped_content
      in (metadata_text, content, references))"

section \<open>The input record\<close>

text \<open>
  \<open>json.load\<close> gives the program a value built from \<open>None\<close>, booleans, integers,
  strings, lists and dictionaries. The pairs of \<open>JObj\<close> are the items of the
  dictionary that was built, one pair for each key. (Number literals with a fraction or
  an exponent, which load as floats, are not represented.)
\<close>

datatype json =
    JNull
  | JBool bool
  | JInt int
  | JStr pystr
  | JArr "json list"
  | JObj "(pystr \<times> json) list"

text \<open>The exceptions that the modelled code can raise.\<close>

datatype error = AttributeError | TypeError | ValueError | OverflowError | OSError

text \<open>Running \<open>f\<close> on the value of \<open>m\<close> unless \<open>m\<close> raised.\<close>

definition and_then :: "error + 'a \<Rightarrow> ('a \<Rightarrow> error + 'b) \<Rightarrow> error + 'b" where
  "and_then m f = (case m of Inl e \<Rightarrow> Inl e | Inr x \<Rightarrow> f x)"

text \<open>The truth value of an object, as \<open>or\<close>, \<open>if\<close> and \<open>bool()\<close> take it.\<close>

fun truthy :: "json \<Rightarrow> bool" where
  "truthy JNull = False"
| "truthy (JBool b) = b"
| "truthy (JInt n) = (n \<noteq> 0)"
| "truthy (JStr s) = (s \<noteq> [])"
| "truthy (JArr xs) = (xs \<noteq> [])"
| "truthy (JObj kvs) = (kvs \<noteq> [])"

text \<open>\<open>d.get(key, dflt)\<close>: only a dictionary has the method.\<close>

fun dict_get :: "json \<Rightarrow> pystr \<Rightarrow> json \<Rightarrow> error + json" where
  "dict_get (JObj kvs) key dflt =
     Inr (case map_of kvs key of None \<Rightarrow> dflt | Some v \<Rightarrow> v)"
| "dict_get _ key dflt = Inl AttributeError"

text \<open>\<open>v or ""\<close>.\<close>

definition or_empty :: "json \<Rightarrow> json" where
  "or_empty v = (if truthy v then v else JStr [])"

text \<open>The receiver of a \<open>str\<close> method (\<open>strip\<close>, \<open>replace\<close>): only a string has it.\<close>

fun as_str :: "json \<Rightarrow> error + pystr" where
  "as_str (JStr s) = Inr s"
| "as_str _ = Inl AttributeError"

text \<open>
  \<open>for l in v\<close>: the elements of a list, the characters of a string, the keys of a
  dictionary; the other values are not iterable.
\<close>

fun iterate :: "json \<Rightarrow> error + json list" where
  "iterate (JArr xs) = Inr xs"
| "iterate (JStr s) = Inr (map (\<lambda>c. JStr [c]) s)"
| "iterate (JObj kvs) = Inr (map (\<lambda>kv. JStr (fst kv)) kvs)"
| "iterate _ = Inl TypeError"

text \<open>
  Line 83, the comprehension over the elements:
  \<open>[l.get("name", "").strip() for l in ... if l.get("name")]\<close>.
\<close>

fun label_names :: "json list \<Rightarrow> error + pystr list" where
  "label_names [] = Inr []"
| "label_names (l # ls) =
     and_then (dict_get l (str ''name'') JNull) (\<lambda>c.
       if truthy c then
         and_then (dict_get l (str ''name'') (JStr [])) (\<lambda>v.
         and_then (as_str v) (\<lambda>s.
         and_then (label_names ls) (\<lambda>rest. Inr (strip s # rest))))
       else label_names ls)"

text \<open>
  \<open>int(s)\<close> for a string: whitespace around it is dropped, then an optional sign (43,
  45) and decimal digits, single underscores (95) allowed between digits. (ASCII digits
  only; the limit on the number of digits of recent interpreters is not modelled.)
\<close>

definition digits_value :: "pystr \<Rightarrow> int" where
  "digits_value ds = foldl (\<lambda>a d. 10 * a + (int d - 48)) 0 ds"

definition int_of_str :: "pystr \<Rightarrow> error + int" where
  "int_of_str s =
     (let t = strip s;
          (sign, ds) = (case t of
                          [] \<Rightarrow> (1, t)
                        | c # r \<Rightarrow> if c = 43 then (1, r) else if c = 45 then (- 1, r)
                                   else (1, t));
          parts = split_on 95 ds
      in if list_all (\<lambda>p. p \<noteq> [] \<and> list_all is_digit p) parts
         then Inr (sign * digits_value (concat parts))
         else Inl ValueError)"

text \<open>\<open>int(v)\<close>.\<close>

fun py_int :: "json \<Rightarrow> error + int" where
  "py_int (JInt n) = Inr n"
| "py_int (JBool b) = Inr (if b then 1 else 0)"
| "py_int (JStr s) = int_of_str s"
| "py_int _ = Inl TypeError"

section \<open>Timestamps\<close>

text \<open>
  \<open>micros_to_iso\<close> (lines 43 to 48). Lines 46 to 48 divide by a float and call the
  \<open>datetime\<close> library; they are the parameter \<open>fromtimestamp_iso\<close>, which gives for the
  microseconds \<open>m\<close> the text of
  \<open>datetime.fromtimestamp(m / 1_000_000.0, tz=timezone.utc).isoformat()\<close>, or the
  exception the library raises for a time it cannot represent.
\<close>

definition micros_to_iso :: "(int \<Rightarrow> error + pystr) \<Rightarrow> int option \<Rightarrow> error + pystr option" where
  "micros_to_iso fromtimestamp_iso micros =
     (case micros of
        None \<Rightarrow> Inr None
      | Some m \<Rightarrow> and_then (fromtimestamp_iso m) (\<lambda>s. Inr (Some s)))"

text \<open>\<open>x or y\<close> for an optional string \<open>x\<close>: \<open>y\<close> when \<open>x\<close> is \<open>None\<close> or empty.\<close>

definition or_else :: "pystr option \<Rightarrow> pystr \<Rightarrow> pystr" where
  "or_else x y = (case x of None \<Rightarrow> y | Some s \<Rightarrow> if s = [] then y else s)"

text \<open>
  Lines 148 and 149: \<open>micros_to_iso(int(data.get(key, 0))) or fallback\<close>.
\<close>

definition timestamp_field ::
  "(int \<Rightarrow> error + pystr) \<Rightarrow> json \<Rightarrow> pystr \<Rightarrow> pystr \<Rightarrow> error + pystr" where
  "timestamp_field fromtimestamp_iso data key fallback =
     and_then (dict_get data key (JInt 0)) (\<lambda>v.
     and_then (py_int v) (\<lambda>m.
     and_then (micros_to_iso fromtimestamp_iso (Some m)) (\<lambda>iso.
     Inr (or_else iso fallback))))"

section \<open>The structured note\<close>

text \<open>
  The dictionary that \<open>parse_note_json\<close> returns, with the three keys that
  \<open>fetch_and_save_metadata\<close> may add (\<open>None\<close>: the key is absent or null).
\<close>

record parsed_note =
  title :: pystr
  metadata :: pystr
  content :: pystr
  references :: pystr
  labels :: "pystr list"
  is_pinned :: bool
  created_at_iso :: pystr
  updated_at_iso :: pystr
  artist :: "pystr option"
  album :: "pystr option"
  release_year :: "int option"

text \<open>
  \<open>parse_note_json\<close> (lines 74 to 160), in the order in which the source evaluates.
  \<open>now_iso\<close> is the text of \<open>datetime.now(timezone.utc).isoformat()\<close>.
\<close>

definition parse_note_json ::
  "(int \<Rightarrow> error + pystr) \<Rightarrow> pystr \<Rightarrow> json \<Rightarrow> error + parsed_note" where
  "parse_note_json fromtimestamp_iso now_iso data =
     and_then (dict_get data (str ''title'') (JStr [])) (\<lambda>tv.
     and_then (as_str (or_empty tv)) (\<lambda>ts.
     and_then (dict_get data (str ''textContent'') (JStr [])) (\<lambda>cv.
     and_then (as_str (or_empty cv)) (\<lambda>cs.
     and_then (dict_get data (str ''labels'') (JArr [])) (\<lambda>lv.
     and_then (iterate lv) (\<lambda>items.
     and_then (label_names items) (\<lambda>label_list.
     and_then (timestamp_field fromtimestamp_iso data (str ''createdTimestampUsec'') now_iso)
       (\<lambda>created_iso.
     and_then (timestamp_field fromtimestamp_iso data (str ''userEditedTimestampUsec'')
                 created_iso) (\<lambda>updated_iso.
     and_then (dict_get data (str ''isPinned'') (JBool False)) (\<lambda>pv.
       (let (new_title, metadata_chords) = extract_chords_from_title (strip ts);
            raw_text = normalize_dashes cs;
            (metadata_text, content_text, references_text) = parse_body raw_text metadata_chords
        in Inr \<lparr> title = new_title, metadata = metadata_text, content = content_text,
                 references = references_text, labels = label_list,
                 is_pinned = truthy pv, created_at_iso = created_iso,
                 updated_at_iso = updated_iso, artist = None, album = None,
                 release_year = None \<rparr>)))))))))))"

text \<open>
  \<open>collect_notes\<close> (lines 195 to 206). A file is its name and what opening and loading
  it gave: the loaded value, or the exception, which the \<open>try\<close> of lines 198 to 203
  catches and logs. The call of \<open>parse_note_json\<close> on line 204 is after that \<open>try\<close>
  statement, so an exception of the parser leaves \<open>collect_notes\<close>. The result is the
  notes and the names of the files that were logged and skipped.
\<close>

fun collect_notes ::
  "(int \<Rightarrow> error + pystr) \<Rightarrow> pystr \<Rightarrow> (pystr \<times> (error + json)) list
   \<Rightarrow> error + (parsed_note list \<times> pystr list)" where
  "collect_notes fromtimestamp_iso now_iso [] = Inr ([], [])"
| "collect_notes fromtimestamp_iso now_iso ((name, loaded) # files) =
     (case loaded of
        Inl e \<Rightarrow>
          and_then (collect_notes fromtimestamp_iso now_iso files) (\<lambda>(notes, skipped).
            Inr (notes, name # skipped))
      | Inr data \<Rightarrow>
          and_then (parse_note_json fromtimestamp_iso now_iso data) (\<lambda>parsed.
          and_then (collect_notes fromtimestamp_iso now_iso files) (\<lambda>(notes, skipped).
            Inr (parsed # notes, skipped))))"

section \<open>SQL emission\<close>

text \<open>
  \<open>escape_sql_string\<close> (lines 51 to 56); 39 is the apostrophe.
\<close>

definition escape_sql_string :: "pystr option \<Rightarrow> pystr" where
  "escape_sql_string s =
     (case s of
        None \<Rightarrow> str ''NULL''
      | Some s0 \<Rightarrow>
          (let s1 = replace [8212] [45] (replace [8211] [45] s0);
               s2 = replace [39] [39, 39] s1
           in [39] @ s2 @ [39]))"

text \<open>\<open>str(n)\<close> for an integer.\<close>

fun digits_of :: "nat \<Rightarrow> pystr" where
  "digits_of n = (if n < 10 then [48 + n] else digits_of (n div 10) @ [48 + n mod 10])"

definition str_of_int :: "int \<Rightarrow> pystr" where
  "str_of_int i = (if i < 0 then 45 # digits_of (nat (- i)) else digits_of (nat i))"

text \<open>
  What \<open>generate_sql\<close> writes is a sequence of statements. A statement holds the values
  that its format string receives; \<open>render\<close> is the text written for it.
\<close>

datatype stmt =
    Header
  | TagInsert pystr pystr pystr
  | NoteInsert pystr pystr parsed_note
  | LinkInsert pystr pystr pystr pystr

text \<open>The optional columns of lines 247 to 251: \<open>NULL\<close> for a false value.\<close>

definition sql_opt_string :: "pystr option \<Rightarrow> pystr" where
  "sql_opt_string v =
     (case v of
        None \<Rightarrow> str ''NULL''
      | Some s \<Rightarrow> if s = [] then str ''NULL'' else escape_sql_string (Some s))"

definition sql_opt_int :: "int option \<Rightarrow> pystr" where
  "sql_opt_int v =
     (case v of
        None \<Rightarrow> str ''NULL''
      | Some y \<Rightarrow> if y = 0 then str ''NULL'' else str_of_int y)"

fun render :: "stmt \<Rightarrow> pystr" where
  "render Header = str ''-- SQL statements generated from Keep JSON export\<newline>''"
| "render (TagInsert tid user_id name) =
     str ''INSERT INTO public.tags (id, user_id, name) VALUES ('' @ [39] @ tid @ [39]
     @ str '', '' @ [39] @ user_id @ [39] @ str '', '' @ escape_sql_string (Some name)
     @ str '');\<newline>''"
| "render (NoteInsert nid user_id n) =
     str ''INSERT INTO public.notes (id, user_id, title, content, artist, album, release_year, metadata, \"references\", isPinned, created_at, updated_at) VALUES (''
     @ join (str '', '')
         [[39] @ nid @ [39],
          [39] @ user_id @ [39],
          escape_sql_string (Some (title n)),
          escape_sql_string (Some (content n)),
          sql_opt_string (artist n),
          sql_opt_string (album n),
          sql_opt_int (release_year n),
          sql_opt_string (Some (metadata n)),
          sql_opt_string (Some (references n)),
          (if is_pinned n then str ''TRUE'' else str ''FALSE''),
          [39] @ created_at_iso n @ [39],
          [39] @ updated_at_iso n @ [39]]
     @ str '');\<newline>''"
| "render (LinkInsert ntid user_id nid tid) =
     str ''INSERT INTO public.note_tags (id, user_id, note_id, tag_id) VALUES (''
     @ join (str '', '') [[39] @ ntid @ [39], [39] @ user_id @ [39], [39] @ nid @ [39],
                           [39] @ tid @ [39]]
     @ str '');\<newline>''"

text \<open>
  The identifiers: \<open>uuid4 k\<close> is the text of the \<open>k\<close>-th call of
  \<open>str(uuid.uuid4())\<close> in the run, counted from 0. Lines 223 to 228: the sorted set of
  all labels gets the first identifiers, in that order, and the notes the next ones.
\<close>

definition all_tags :: "parsed_note list \<Rightarrow> pystr list" where
  "all_tags notes = sort (remdups (concat (map labels notes)))"

definition tag_map :: "(nat \<Rightarrow> pystr) \<Rightarrow> parsed_note list \<Rightarrow> (pystr \<times> pystr) list" where
  "tag_map uuid4 notes =
     zip (all_tags notes) (map uuid4 [0 ..< length (all_tags notes)])"

definition note_ids :: "(nat \<Rightarrow> pystr) \<Rightarrow> parsed_note list \<Rightarrow> pystr list" where
  "note_ids uuid4 notes =
     map uuid4 [length (all_tags notes) ..< length (all_tags notes) + length notes]"

text \<open>
  Lines 258 to 263, the loop over the labels of one note. \<open>k\<close> counts the identifiers
  drawn so far; the result is the statements written and the new count.
\<close>

fun emit_links ::
  "(nat \<Rightarrow> pystr) \<Rightarrow> (pystr \<times> pystr) list \<Rightarrow> pystr \<Rightarrow> pystr \<Rightarrow> nat \<Rightarrow> pystr list
   \<Rightarrow> stmt list \<times> nat" where
  "emit_links uuid4 tmap user_id nid k [] = ([], k)"
| "emit_links uuid4 tmap user_id nid k (label # rest) =
     (case map_of tmap label of
        None \<Rightarrow> emit_links uuid4 tmap user_id nid k rest
      | Some tid \<Rightarrow>
          (let (out, k') = emit_links uuid4 tmap user_id nid (Suc k) rest
           in (LinkInsert (uuid4 k) user_id nid tid # out, k')))"

text \<open>Lines 238 to 263, the loop over the notes with their identifiers.\<close>

fun emit_notes ::
  "(nat \<Rightarrow> pystr) \<Rightarrow> (pystr \<times> pystr) list \<Rightarrow> pystr \<Rightarrow> nat \<Rightarrow> (pystr \<times> parsed_note) list
   \<Rightarrow> stmt list" where
  "emit_notes uuid4 tmap user_id k [] = []"
| "emit_notes uuid4 tmap user_id k ((nid, n) # rest) =
     (let (links, k') = emit_links uuid4 tmap user_id nid k (labels n)
      in NoteInsert nid user_id n # links @ emit_notes uuid4 tmap user_id k' rest)"

text \<open>\<open>generate_sql\<close> (lines 222 to 265): the statements in the order written.\<close>

definition generate_sql :: "(nat \<Rightarrow> pystr) \<Rightarrow> parsed_note list \<Rightarrow> pystr \<Rightarrow> stmt list" where
  "generate_sql uuid4 notes user_id =
     Header
     # map (\<lambda>(name, tid). TagInsert tid user_id name) (tag_map uuid4 notes)
     @ emit_notes uuid4 (tag_map uuid4 notes) user_id
         (length (all_tags notes) + length notes)
         (zip (note_ids uuid4 notes) notes)"

definition sql_text :: "stmt list \<Rightarrow> pystr" where
  "sql_text stmts = concat (map render stmts)"

section \<open>Scenario inputs\<close>

text \<open>The record of the end-to-end scenario.\<close>

definition riff_note :: json where
  "riff_note = JObj
     [(str ''title'', JStr (str ''Riff (Em, G)'')),
      (str ''textContent'', JStr (str ''Tempo: 120\<newline>\<newline>https://example.com\<newline>e|--0--\<newline>B|--1--\<newline>Some lyrics'')),
      (str ''labels'', JArr [JObj [(str ''name'', JStr (str ''music''))]]),
      (str ''isPinned'', JBool False),
      (str ''createdTimestampUsec'', JInt 0)]"

section \<open>Properties\<close>

lemma replace_absent:
  "hd old \<notin> set s \<Longrightarrow> replace old new s = s"
proof (induction s)
  case Nil
  show ?case by simp
next
  case (Cons c s)
  have n: "\<not> (old \<noteq> [] \<and> prefix old (c # s))"
  proof
    assume a: "old \<noteq> [] \<and> prefix old (c # s)"
    then obtain o1 os where o: "old = o1 # os" by (cases old) auto
    with a have "o1 = c" by simp
    with o Cons.prems show False by simp
  qed
  from Cons have "replace old new s = s" by simp
  then show ?case by (simp only: replace.simps if_not_P[OF n])
qed

lemma replace_set:
  "set (replace old new s) \<subseteq> set s \<union> set new"
proof (induction old new s rule: replace.induct)
  case (1 old new)
  show ?case by simp
next
  case (2 old new c s)
  show ?case
  proof (cases "old \<noteq> [] \<and> prefix old (c # s)")
    case True
    have "set (drop (length old) (c # s)) \<subseteq> set (c # s)" by (rule set_drop_subset)
    with 2(1)[OF True] True show ?thesis by auto
  next
    case False
    with 2(2)[OF False] show ?thesis by auto
  qed
qed

lemma replace_char_gone:
  "c \<notin> set new \<Longrightarrow> c \<notin> set (replace [c] new s)"
  by (induction s) auto

lemma normalize_dashes_clean:
  "8211 \<notin> set (normalize_dashes t) \<and> 8212 \<notin> set (normalize_dashes t)"
proof -
  have a: "8211 \<notin> set (replace [8211] [45] t)"
    by (rule replace_char_gone) simp
  have "set (normalize_dashes t) \<subseteq> set (replace [8211] [45] t) \<union> set [45]"
    unfolding normalize_dashes_def by (rule replace_set)
  with a have "8211 \<notin> set (normalize_dashes t)" by auto
  moreover have "8212 \<notin> set (normalize_dashes t)"
    unfolding normalize_dashes_def by (rule replace_char_gone) simp
  ultimately show ?thesis by simp
qed

lemma normalize_newlines_set:
  "set (normalize_newlines t) \<subseteq> set t \<union> {10}"
proof -
  have "set (normalize_newlines t) \<subseteq> set (replace [13, 10] [10] t) \<union> set [10]"
    unfolding normalize_newlines_def by (rule replace_set)
  moreover have "set (replace [13, 10] [10] t) \<subseteq> set t \<union> set [10]"
    by (rule replace_set)
  ultimately show ?thesis by auto
qed

lemma normalize_newlines_clean:
  "13 \<notin> set (normalize_newlines t)"
  unfolding normalize_newlines_def by (rule replace_char_gone) simp

lemma normalize_dashes_fixed:
  "8211 \<notin> set t \<Longrightarrow> 8212 \<notin> set t \<Longrightarrow> normalize_dashes t = t"
  by (simp add: normalize_dashes_def replace_absent)

lemma normalize_newlines_fixed:
  "13 \<notin> set t \<Longrightarrow> normalize_newlines t = t"
  by (simp add: normalize_newlines_def replace_absent)

text \<open>
  Claim C9. For every input string, normalizing the text (en dash and em dash to a
  hyphen, then \<open>\r\n\<close> and a lone \<open>\r\<close> to \<open>\n\<close>) twice gives the same string as
  normalizing it once.
\<close>

theorem normalize_text_idempotent:
  "normalize_text (normalize_text t) = normalize_text t"
proof -
  let ?n = "normalize_text t"
  have d: "8211 \<notin> set ?n \<and> 8212 \<notin> set ?n"
    using normalize_dashes_clean[of t] normalize_newlines_set[of "normalize_dashes t"]
    unfolding normalize_text_def by auto
  have r: "13 \<notin> set ?n"
    unfolding normalize_text_def by (rule normalize_newlines_clean)
  from d have "normalize_dashes ?n = ?n" by (simp add: normalize_dashes_fixed)
  moreover from r have "normalize_newlines ?n = ?n" by (rule normalize_newlines_fixed)
  ultimately show ?thesis by (simp add: normalize_text_def[of ?n])
qed

subsection \<open>Evaluation\<close>

lemmas ev = str_def strip_def lstrip_def rstrip_def is_space_def is_digit_def is_sep_def Let_def

lemmas chord_ev = CHORD_SUFFIX_RE_match_def ALL_NOTES_def NOTES_SHARP_def NOTES_FLAT_def
  QUALITIES_def quality_then_rest_def bass_then_end_def at_end_def

lemma str_eq_iff: "str a = str b \<longleftrightarrow> a = b"
  unfolding str_def by (rule inj_map_eq_map) (rule inj_of_char)

lemma str_nil_iff: "str a = [] \<longleftrightarrow> a = []"
  by (simp add: str_def)

lemma and_then_Inr: "and_then (Inr x) f = f x"
  by (simp add: and_then_def)

lemma and_then_Inl: "and_then (Inl e) f = Inl e"
  by (simp add: and_then_def)

lemma timestamp_field_zero:
  assumes "dict_get data key (JInt 0) = Inr (JInt 0)"
    and "fromtimestamp_iso 0 = Inr e" and "e \<noteq> []"
  shows "timestamp_field fromtimestamp_iso data key fallback = Inr e"
  using assms
  by (simp add: timestamp_field_def and_then_Inr micros_to_iso_def or_else_def)

subsection \<open>The end-to-end scenario\<close>

lemma match_Em: "CHORD_SUFFIX_RE_match [69, 109]"
  by (simp add: ev chord_ev)

lemma match_G: "CHORD_SUFFIX_RE_match [71]"
  by (simp add: ev chord_ev)

lemma riff_title:
  "extract_chords_from_title (strip (str ''Riff (Em, G)'')) =
     (str ''Riff'', Some (str ''Chords used : Em, G''))"
  by (simp add: ev extract_chords_from_title_def BRACKET_CONTENT_RE_search_def
        bracket_tokens_def match_Em match_G)

lemma riff_tab_0: "TAB_LINE_RE_match [84, 101, 109, 112, 111, 58, 32, 49, 50, 48] = False"
  by (simp add: ev TAB_LINE_RE_match_def)

lemma riff_blank_0: "BLANK_LINE_RE_match [84, 101, 109, 112, 111, 58, 32, 49, 50, 48] = False"
  by (simp add: ev BLANK_LINE_RE_match_def)

lemma riff_tab_1: "TAB_LINE_RE_match [] = False"
  by (simp add: ev TAB_LINE_RE_match_def)

lemma riff_blank_1: "BLANK_LINE_RE_match [] = True"
  by (simp add: ev BLANK_LINE_RE_match_def)

lemma riff_tab_2: "TAB_LINE_RE_match [101, 124, 45, 45, 48, 45, 45] = True"
  by (simp add: ev TAB_LINE_RE_match_def)

lemma riff_blank_2: "BLANK_LINE_RE_match [101, 124, 45, 45, 48, 45, 45] = False"
  by (simp add: ev BLANK_LINE_RE_match_def)

lemma riff_tab_3: "TAB_LINE_RE_match [66, 124, 45, 45, 49, 45, 45] = True"
  by (simp add: ev TAB_LINE_RE_match_def)

lemma riff_blank_3: "BLANK_LINE_RE_match [66, 124, 45, 45, 49, 45, 45] = False"
  by (simp add: ev BLANK_LINE_RE_match_def)

lemma riff_tab_4: "TAB_LINE_RE_match [83, 111, 109, 101, 32, 108, 121, 114, 105, 99, 115] = False"
  by (simp add: ev TAB_LINE_RE_match_def)

lemma riff_blank_4: "BLANK_LINE_RE_match [83, 111, 109, 101, 32, 108, 121, 114, 105, 99, 115] = False"
  by (simp add: ev BLANK_LINE_RE_match_def)

lemma riff_body:
  "parse_body (normalize_dashes (str ''Tempo: 120\<newline>\<newline>https://example.com\<newline>e|--0--\<newline>B|--1--\<newline>Some lyrics'')) (Some (str ''Chords used : Em, G'')) =
   (str ''Tempo: 120\<newline>Chords used : Em, G'',
    str ''```e|--0--\<newline>B|--1--\<newline>```\<newline>Some lyrics'',
    str ''https://example.com'')"
  by (simp add: ev parse_body_def body_lines_def normalize_dashes_def normalize_newlines_def
        URL_RE_fullmatch_def url_tail_def extract_metadata_def use_metadata_def
        STARTS_WITH_NUMBER_RE_match_def merge_metadata_def prepare_content_def
        strip_newlines_def riff_tab_0 riff_blank_0 riff_tab_1 riff_blank_1 riff_tab_2 riff_blank_2 riff_tab_3 riff_blank_3 riff_tab_4 riff_blank_4)

lemma riff_get_title:
  "dict_get riff_note (str ''title'') (JStr []) = Inr (JStr (str ''Riff (Em, G)''))"
  by (simp add: riff_note_def str_eq_iff)

lemma riff_title_str:
  "as_str (or_empty (JStr (str ''Riff (Em, G)''))) = Inr (str ''Riff (Em, G)'')"
  by (simp add: or_empty_def str_nil_iff)

lemma riff_get_text:
  "dict_get riff_note (str ''textContent'') (JStr []) = Inr (JStr (str ''Tempo: 120\<newline>\<newline>https://example.com\<newline>e|--0--\<newline>B|--1--\<newline>Some lyrics''))"
  by (simp add: riff_note_def str_eq_iff)

lemma riff_text_str:
  "as_str (or_empty (JStr (str ''Tempo: 120\<newline>\<newline>https://example.com\<newline>e|--0--\<newline>B|--1--\<newline>Some lyrics''))) = Inr (str ''Tempo: 120\<newline>\<newline>https://example.com\<newline>e|--0--\<newline>B|--1--\<newline>Some lyrics'')"
  by (simp add: or_empty_def str_nil_iff)

lemma riff_get_labels:
  "dict_get riff_note (str ''labels'') (JArr []) =
     Inr (JArr [JObj [(str ''name'', JStr (str ''music''))]])"
  by (simp add: riff_note_def str_eq_iff)

lemma riff_strip_label: "strip (str ''music'') = str ''music''"
  by (simp add: ev)

lemma riff_labels:
  "label_names [JObj [(str ''name'', JStr (str ''music''))]] = Inr [str ''music'']"
  by (simp add: and_then_Inr str_eq_iff str_nil_iff riff_strip_label)

lemma riff_get_created:
  "dict_get riff_note (str ''createdTimestampUsec'') (JInt 0) = Inr (JInt 0)"
  by (simp add: riff_note_def str_eq_iff)

lemma riff_get_edited:
  "dict_get riff_note (str ''userEditedTimestampUsec'') (JInt 0) = Inr (JInt 0)"
  by (simp add: riff_note_def str_eq_iff)

lemma riff_get_pinned:
  "dict_get riff_note (str ''isPinned'') (JBool False) = Inr (JBool False)"
  by (simp add: riff_note_def str_eq_iff)

text \<open>
  Claim C1, on the code. For the note of the scenario (title \<open>Riff (Em, G)\<close>, the body
  with a header line, a URL line, two tablature lines and a lyrics line, one label,
  unpinned, creation timestamp 0) \<open>parse_note_json\<close> returns the title, metadata,
  references, labels and pin flag of the scenario, but the content starts with the three
  backticks directly followed by the first tablature line: no line feed comes between
  them. \<open>e\<close> is the text the library gives for the timestamp 0.
\<close>

theorem riff_scenario:
  assumes z: "fromtimestamp_iso 0 = Inr e" and ne: "e \<noteq> []"
  shows "parse_note_json fromtimestamp_iso now_iso riff_note =
     Inr \<lparr> title = str ''Riff'', metadata = str ''Tempo: 120\<newline>Chords used : Em, G'',
            content = str ''```e|--0--\<newline>B|--1--\<newline>```\<newline>Some lyrics'',
            references = str ''https://example.com'', labels = [str ''music''],
            is_pinned = False, created_at_iso = e, updated_at_iso = e,
            artist = None, album = None, release_year = None \<rparr>"
proof -
  have created: "timestamp_field fromtimestamp_iso riff_note (str ''createdTimestampUsec'') fb
                   = Inr e" for fb
    using riff_get_created z ne by (rule timestamp_field_zero)
  have edited: "timestamp_field fromtimestamp_iso riff_note (str ''userEditedTimestampUsec'') fb
                  = Inr e" for fb
    using riff_get_edited z ne by (rule timestamp_field_zero)
  show ?thesis
    unfolding parse_note_json_def
    by (simp only: riff_get_title riff_title_str riff_get_text riff_text_str riff_get_labels
          iterate.simps riff_labels created edited riff_get_pinned and_then_Inr
          riff_title riff_body Let_def prod.case truthy.simps)
qed

theorem riff_scenario_witness:
  "parse_note_json (\<lambda>m. Inr (str ''1970-01-01T00:00:00+00:00'')) (str ''2026-01-01T00:00:00+00:00'') riff_note =
     Inr \<lparr> title = str ''Riff'', metadata = str ''Tempo: 120\<newline>Chords used : Em, G'',
            content = str ''```e|--0--\<newline>B|--1--\<newline>```\<newline>Some lyrics'',
            references = str ''https://example.com'', labels = [str ''music''],
            is_pinned = False, created_at_iso = str ''1970-01-01T00:00:00+00:00'', updated_at_iso = str ''1970-01-01T00:00:00+00:00'',
            artist = None, album = None, release_year = None \<rparr>"
  by (rule riff_scenario) (simp_all add: str_nil_iff)

subsection \<open>Timestamps\<close>

lemma empty_title: "extract_chords_from_title (strip []) = ([], None)"
  by (simp add: ev extract_chords_from_title_def BRACKET_CONTENT_RE_search_def)

lemma empty_blank: "BLANK_LINE_RE_match [] = True"
  by (simp add: BLANK_LINE_RE_match_def)

lemma empty_body: "parse_body (normalize_dashes []) None = ([], [], [])"
  by (simp add: ev parse_body_def body_lines_def normalize_dashes_def normalize_newlines_def
        URL_RE_fullmatch_def url_tail_def extract_metadata_def use_metadata_def
        merge_metadata_def prepare_content_def strip_newlines_def empty_blank)

lemma parse_note_json_plain:
  assumes c: "timestamp_field fromtimestamp_iso (JObj kvs) (str ''createdTimestampUsec'') now_iso
                = Inr created"
    and u: "timestamp_field fromtimestamp_iso (JObj kvs) (str ''userEditedTimestampUsec'') created
                = Inr updated"
    and t: "map_of kvs (str ''title'') = None"
    and b: "map_of kvs (str ''textContent'') = None"
    and l: "map_of kvs (str ''labels'') = None"
    and p: "map_of kvs (str ''isPinned'') = None"
  shows "parse_note_json fromtimestamp_iso now_iso (JObj kvs) =
     Inr \<lparr> title = [], metadata = [], content = [], references = [], labels = [],
            is_pinned = False, created_at_iso = created, updated_at_iso = updated,
            artist = None, album = None, release_year = None \<rparr>"
  unfolding parse_note_json_def
  by (simp add: c u t b l p and_then_Inr or_empty_def empty_title empty_body)

lemma timestamp_field_int:
  assumes "dict_get data key (JInt 0) = Inr (JInt m)"
    and "fromtimestamp_iso m = Inr e" and "e \<noteq> []"
  shows "timestamp_field fromtimestamp_iso data key fallback = Inr e"
  using assms
  by (simp add: timestamp_field_def and_then_Inr micros_to_iso_def or_else_def)

text \<open>
  Claim C2, on the code. A record with no timestamp at all gets the text of the
  timestamp 0 as its creation time, whatever the current time \<open>now_iso\<close> is; a record
  created at 5000000 microseconds and never edited gets the text of the timestamp 0 as
  its update time, not its creation time. \<open>int(data.get(key, 0))\<close> is never \<open>None\<close> and
  the text for 0 is not empty, so neither \<open>or\<close> of lines 148 and 149 takes its right
  operand.
\<close>

theorem timestamp_fallbacks_dead:
  assumes z: "fromtimestamp_iso 0 = Inr e0" and ne: "e0 \<noteq> []"
    and f: "fromtimestamp_iso 5000000 = Inr e5" and ne5: "e5 \<noteq> []"
  shows "parse_note_json fromtimestamp_iso now_iso (JObj []) =
           Inr \<lparr> title = [], metadata = [], content = [], references = [], labels = [],
                  is_pinned = False, created_at_iso = e0, updated_at_iso = e0,
                  artist = None, album = None, release_year = None \<rparr>
       \<and> parse_note_json fromtimestamp_iso now_iso
             (JObj [(str ''createdTimestampUsec'', JInt 5000000)]) =
           Inr \<lparr> title = [], metadata = [], content = [], references = [], labels = [],
                  is_pinned = False, created_at_iso = e5, updated_at_iso = e0,
                  artist = None, album = None, release_year = None \<rparr>"
proof
  have a: "timestamp_field fromtimestamp_iso (JObj []) k fb = Inr e0" for k fb
    by (simp add: timestamp_field_def and_then_Inr micros_to_iso_def or_else_def str_eq_iff z ne f ne5)
  show "parse_note_json fromtimestamp_iso now_iso (JObj []) =
           Inr \<lparr> title = [], metadata = [], content = [], references = [], labels = [],
                  is_pinned = False, created_at_iso = e0, updated_at_iso = e0,
                  artist = None, album = None, release_year = None \<rparr>"
    by (rule parse_note_json_plain) (simp_all add: a)
next
  let ?d = "JObj [(str ''createdTimestampUsec'', JInt 5000000)]"
  have c: "timestamp_field fromtimestamp_iso ?d (str ''createdTimestampUsec'') fb = Inr e5" for fb
    by (simp add: timestamp_field_def and_then_Inr micros_to_iso_def or_else_def str_eq_iff z ne f ne5)
  have u: "timestamp_field fromtimestamp_iso ?d (str ''userEditedTimestampUsec'') fb = Inr e0" for fb
    by (simp add: timestamp_field_def and_then_Inr micros_to_iso_def or_else_def str_eq_iff z ne f ne5)
  show "parse_note_json fromtimestamp_iso now_iso ?d =
           Inr \<lparr> title = [], metadata = [], content = [], references = [], labels = [],
                  is_pinned = False, created_at_iso = e5, updated_at_iso = e0,
                  artist = None, album = None, release_year = None \<rparr>"
    by (rule parse_note_json_plain) (simp_all add: c u str_eq_iff)
qed

theorem timestamp_fallbacks_dead_witness:
  "parse_note_json
     (\<lambda>m. if m = 0 then Inr (str ''1970-01-01T00:00:00+00:00'')
           else Inr (str ''1970-01-01T00:00:05+00:00''))
     (str ''2026-01-01T00:00:00+00:00'') (JObj []) =
     Inr \<lparr> title = [], metadata = [], content = [], references = [], labels = [],
            is_pinned = False, created_at_iso = str ''1970-01-01T00:00:00+00:00'',
            updated_at_iso = str ''1970-01-01T00:00:00+00:00'',
            artist = None, album = None, release_year = None \<rparr>
   \<and> parse_note_json
     (\<lambda>m. if m = 0 then Inr (str ''1970-01-01T00:00:00+00:00'')
           else Inr (str ''1970-01-01T00:00:05+00:00''))
     (str ''2026-01-01T00:00:00+00:00'')
     (JObj [(str ''createdTimestampUsec'', JInt 5000000)]) =
     Inr \<lparr> title = [], metadata = [], content = [], references = [], labels = [],
            is_pinned = False, created_at_iso = str ''1970-01-01T00:00:05+00:00'',
            updated_at_iso = str ''1970-01-01T00:00:00+00:00'',
            artist = None, album = None, release_year = None \<rparr>"
  by (rule timestamp_fallbacks_dead) (simp_all add: str_nil_iff)

lemma int_of_str_abc: "int_of_str (str ''abc'') = Inl ValueError"
  by (simp add: ev int_of_str_def)

text \<open>
  Claim C3, on the code. A file whose \<open>createdTimestampUsec\<close> is the string \<open>abc\<close>
  makes \<open>int\<close> raise \<open>ValueError\<close> inside \<open>parse_note_json\<close>; \<open>collect_notes\<close> calls the
  parser outside its \<open>try\<close> statement, so the exception ends the whole batch, whatever
  files follow.
\<close>

theorem malformed_timestamp_aborts_batch:
  "collect_notes fromtimestamp_iso now_iso
     ((name, Inr (JObj [(str ''createdTimestampUsec'', JStr (str ''abc''))])) # files)
   = Inl ValueError"
proof -
  have "parse_note_json fromtimestamp_iso now_iso
          (JObj [(str ''createdTimestampUsec'', JStr (str ''abc''))]) = Inl ValueError"
    unfolding parse_note_json_def
    by (simp add: and_then_Inr and_then_Inl or_empty_def str_eq_iff timestamp_field_def
          int_of_str_abc)
  then show ?thesis by (simp add: and_then_Inl)
qed

end
